theory Spec2Isabelle
  imports Main
begin

section \<open>The parsed response tree\<close>

text \<open>
  The client (\<^verbatim>\<open>src/eventor_api.py\<close>) works on \<^verbatim>\<open>xml.etree.ElementTree\<close> elements:
  a tag, an attribute dictionary, a text that may be \<^verbatim>\<open>None\<close>, and the ordered children.
\<close>

datatype element =
  Element (tag: string) (attrib: "(string \<times> string) list")
          (elem_text: "string option") (children: "element list")

text \<open>\<^verbatim>\<open>elem.get(key)\<close>: the attribute, or \<^verbatim>\<open>None\<close>.\<close>

definition get :: "element \<Rightarrow> string \<Rightarrow> string option" where
  "get e k = map_of (attrib e) k"

text \<open>\<^verbatim>\<open>elem.iter()\<close>: the element itself and all its descendants, in document order.\<close>

fun iter :: "element \<Rightarrow> element list" where
  "iter (Element t a x cs) = Element t a x cs # concat (map iter cs)"

definition descendants :: "element \<Rightarrow> element list" where
  "descendants e = concat (map iter (children e))"

text \<open>
  The path expressions the client uses, already tokenised. The source's strings read
  \<^item> \<^verbatim>\<open>'A'\<close> as \<open>[Child A]\<close>, \<^verbatim>\<open>'A/B'\<close> as \<open>[Child A, Child B]\<close>;
  \<^item> \<^verbatim>\<open>'.//A'\<close> as \<open>[Descendant A]\<close>, \<^verbatim>\<open>'.//A/B'\<close> as \<open>[Descendant A, Child B]\<close>;
  \<^item> \<^verbatim>\<open>'.//A/B[@k="v"]'\<close> as \<open>[Descendant A, Child B, AttrEq k v]\<close>.
  Each step maps the list of context elements to the list of selected elements, in
  order, as \<^verbatim>\<open>ElementPath.iterfind\<close> does.
\<close>

datatype step = Child string | Descendant string | AttrEq string string

type_synonym path = "step list"

fun select :: "step \<Rightarrow> element list \<Rightarrow> element list" where
  "select (Child t) es = concat (map (\<lambda>e. filter (\<lambda>c. tag c = t) (children e)) es)"
| "select (Descendant t) es = concat (map (\<lambda>e. filter (\<lambda>d. tag d = t) (descendants e)) es)"
| "select (AttrEq k v) es = filter (\<lambda>e. get e k = Some v) es"

definition findall :: "element \<Rightarrow> path \<Rightarrow> element list" where
  "findall e p = foldl (\<lambda>es s. select s es) [e] p"

text \<open>\<^verbatim>\<open>elem.find(path)\<close>: the first match, or \<^verbatim>\<open>None\<close>.\<close>

definition find_path :: "element \<Rightarrow> path \<Rightarrow> element option" where
  "find_path e p = (case findall e p of [] \<Rightarrow> None | n # _ \<Rightarrow> Some n)"

text \<open>
  \<^verbatim>\<open>elem.findtext(path)\<close>: \<^verbatim>\<open>None\<close> when nothing matches, otherwise the text of the
  first match, with a missing text read as the empty string.
\<close>

definition findtext :: "element \<Rightarrow> path \<Rightarrow> string option" where
  "findtext e p =
     (case find_path e p of
        None \<Rightarrow> None
      | Some n \<Rightarrow> (case elem_text n of None \<Rightarrow> Some [] | Some s \<Rightarrow> Some s))"

text \<open>
  The guarded lookups the extractors repeat, with one path \<open>P\<close> in guard and value:
  \<^verbatim>\<open>X.find(P).text if X.find(P) is not None else None\<close> and
  \<^verbatim>\<open>X.find(P).get(a) if X.find(P) is not None else None\<close>.
\<close>

definition text_if_found :: "element \<Rightarrow> path \<Rightarrow> string option" where
  "text_if_found e p = (case find_path e p of None \<Rightarrow> None | Some n \<Rightarrow> elem_text n)"

definition attr_if_found :: "element \<Rightarrow> path \<Rightarrow> string \<Rightarrow> string option" where
  "attr_if_found e p a = (case find_path e p of None \<Rightarrow> None | Some n \<Rightarrow> get n a)"

section \<open>Records, tables and errors\<close>

text \<open>
  A flat record is the Python dictionary an extractor builds: keys in insertion order,
  each value a string or \<^verbatim>\<open>None\<close>. A table is the list of dictionaries handed to
  \<^verbatim>\<open>pd.DataFrame\<close>; \<^verbatim>\<open>pd.DataFrame()\<close> is the table without rows. The columns of a
  table are the keys that occur in some row.
\<close>

type_synonym row = "(string \<times> string option) list"
type_synonym table = "row list"

definition columns :: "table \<Rightarrow> string list" where
  "columns t = rev (remdups (rev (concat (map (map fst) t))))"

datatype request_exception = ConnectionError string | HTTPError nat

datatype error = AttributeError | TypeError | RequestException request_exception

text \<open>
  \<^verbatim>\<open>for x in xs: data.append(f(x))\<close> where \<open>f\<close> may raise: the first exception ends the
  loop and the call.
\<close>

fun collect :: "('a \<Rightarrow> error + 'b) \<Rightarrow> 'a list \<Rightarrow> error + 'b list" where
  "collect f [] = Inr []"
| "collect f (x # xs) =
     (case f x of
        Inl e \<Rightarrow> Inl e
      | Inr r \<Rightarrow> (case collect f xs of Inl e \<Rightarrow> Inl e | Inr rs \<Rightarrow> Inr (r # rs)))"

text \<open>\<^verbatim>\<open>sep.join(xs)\<close>.\<close>

fun join :: "string \<Rightarrow> string list \<Rightarrow> string" where
  "join sep [] = []"
| "join sep [x] = x"
| "join sep (x # y # ys) = x @ sep @ join sep (y # ys)"

section \<open>The events extractor\<close>

text \<open>
  Line 74 guards \<^verbatim>\<open>.//Organiser\<close> and reads \<^verbatim>\<open>.//Organiser/OrganisationId\<close>: with an
  organiser that has no such child, \<^verbatim>\<open>.text\<close> is taken of \<^verbatim>\<open>None\<close>.
\<close>

definition organiser_id :: "element \<Rightarrow> error + string option" where
  "organiser_id event =
     (if find_path event [Descendant ''Organiser''] \<noteq> None
      then (case find_path event [Descendant ''Organiser'', Child ''OrganisationId''] of
              None \<Rightarrow> Inl AttributeError
            | Some n \<Rightarrow> Inr (elem_text n))
      else Inr None)"

text \<open>
  Line 77: \<^verbatim>\<open>', '.join([d.text for d in event.findall('.//DisciplineId')])\<close>; joining a
  \<^verbatim>\<open>None\<close> text is a \<^verbatim>\<open>TypeError\<close>.
\<close>

definition discipline_ids :: "element \<Rightarrow> error + string option" where
  "discipline_ids event =
     (let ts = map elem_text (findall event [Descendant ''DisciplineId''])
      in if None \<in> set ts then Inl TypeError else Inr (Some (join '', '' (map the ts))))"

text \<open>\<^verbatim>\<open>event_race.findtext('Name') or ''\<close>.\<close>

definition or_empty :: "string option \<Rightarrow> string option" where
  "or_empty v = (case v of None \<Rightarrow> Some [] | Some s \<Rightarrow> (if s = [] then Some [] else Some s))"

text \<open>Lines 80 to 111: the keys added after the dictionary literal.\<close>

definition event_race_fields :: "element \<Rightarrow> row" where
  "event_race_fields event =
     (case find_path event [Descendant ''EventRace''] of
        Some event_race \<Rightarrow>
          [(''EventRaceDistance'', get event_race ''raceDistance''),
           (''EventRaceId'', findtext event_race [Child ''EventRaceId'']),
           (''EventRaceName'', or_empty (findtext event_race [Child ''Name'']))]
          @ (case find_path event_race [Child ''RaceDate''] of
               Some race_date \<Rightarrow>
                 [(''RaceDate'', findtext race_date [Child ''Date'']),
                  (''RaceClock'', findtext race_date [Child ''Clock''])]
             | None \<Rightarrow> [(''RaceDate'', None), (''RaceClock'', None)])
          @ (case find_path event_race [Descendant ''EventCenterPosition''] of
               Some event_center \<Rightarrow>
                 [(''EventCenterX'', get event_center ''x''),
                  (''EventCenterY'', get event_center ''y''),
                  (''EventCenterUnit'', get event_center ''unit'')]
             | None \<Rightarrow>
                 [(''EventCenterX'', None), (''EventCenterY'', None),
                  (''EventCenterUnit'', None)])
      | None \<Rightarrow>
          [(''EventRaceId'', None), (''EventRaceName'', Some []),
           (''RaceDate'', None), (''RaceClock'', None),
           (''EventCenterX'', None), (''EventCenterY'', None),
           (''EventCenterUnit'', None)])"

definition event_dict :: "element \<Rightarrow> error + row" where
  "event_dict event =
     (case organiser_id event of
        Inl e \<Rightarrow> Inl e
      | Inr organisation_id \<Rightarrow>
         (case discipline_ids event of
            Inl e \<Rightarrow> Inl e
          | Inr ds \<Rightarrow>
              Inr ([(''EventId'', findtext event [Child ''EventId'']),
                    (''Name'', findtext event [Child ''Name'']),
                    (''StartDate'', findtext event [Child ''StartDate'', Child ''Date'']),
                    (''StartClock'', findtext event [Child ''StartDate'', Child ''Clock'']),
                    (''FinishDate'', findtext event [Child ''FinishDate'', Child ''Date'']),
                    (''FinishClock'', findtext event [Child ''FinishDate'', Child ''Clock'']),
                    (''EventClassificationId'', findtext event [Child ''EventClassificationId'']),
                    (''EventStatusId'', findtext event [Child ''EventStatusId'']),
                    (''OrganisationId'', organisation_id),
                    (''WebURL'', findtext event [Child ''WebURL'']),
                    (''PunchingUnitType'', attr_if_found event [Child ''PunchingUnitType''] ''value''),
                    (''DisciplineIds'', ds)]
                   @ event_race_fields event)))"

definition events_to_dataframe :: "element option \<Rightarrow> error + table" where
  "events_to_dataframe events_data =
     (case events_data of
        None \<Rightarrow> Inr []
      | Some root \<Rightarrow> collect event_dict (findall root [Descendant ''Event'']))"

section \<open>The other extractors\<close>

text \<open>
  None of them tests for \<^verbatim>\<open>None\<close>: \<^verbatim>\<open>None.findall\<close> (and \<^verbatim>\<open>None.find\<close> in the
  memberships extractor) is an \<^verbatim>\<open>AttributeError\<close>.
\<close>

definition org_dict :: "element \<Rightarrow> row" where
  "org_dict org =
     [(''OrganisationId'', findtext org [Child ''OrganisationId'']),
      (''Name'', findtext org [Child ''Name'']),
      (''ShortName'', findtext org [Child ''ShortName'']),
      (''MediaName'', findtext org [Child ''MediaName'']),
      (''OrganisationTypeId'', findtext org [Child ''OrganisationTypeId'']),
      (''CountryId'', attr_if_found org [Descendant ''Country'', Child ''CountryId''] ''value''),
      (''Alpha3'', attr_if_found org [Descendant ''Country'', Child ''Alpha3''] ''value''),
      (''CountryName_en'',
         text_if_found org [Descendant ''Country'', Child ''Name'', AttrEq ''languageId'' ''en'']),
      (''CountryName_sv'',
         text_if_found org [Descendant ''Country'', Child ''Name'', AttrEq ''languageId'' ''sv'']),
      (''Address_careOf'', attr_if_found org [Descendant ''Address''] ''careOf''),
      (''Address_street'', attr_if_found org [Descendant ''Address''] ''street''),
      (''Address_city'', attr_if_found org [Descendant ''Address''] ''city''),
      (''Address_zipCode'', attr_if_found org [Descendant ''Address''] ''zipCode''),
      (''AddressType'', attr_if_found org [Descendant ''AddressType''] ''value''),
      (''Tele_phoneNumber'', attr_if_found org [Descendant ''Tele''] ''phoneNumber''),
      (''Tele_mobilePhoneNumber'', attr_if_found org [Descendant ''Tele''] ''mobilePhoneNumber''),
      (''Tele_mailAddress'', attr_if_found org [Descendant ''Tele''] ''mailAddress''),
      (''TeleType'', attr_if_found org [Descendant ''TeleType''] ''value''),
      (''ParentOrganisationId'',
         text_if_found org [Descendant ''ParentOrganisation'', Child ''OrganisationId'']),
      (''OrganisationStatusId'', findtext org [Child ''OrganisationStatusId'']),
      (''ModifyDate'', text_if_found org [Descendant ''ModifyDate'', Child ''Date'']),
      (''ModifyClock'', text_if_found org [Descendant ''ModifyDate'', Child ''Clock''])]"

definition organizations_to_dataframe :: "element option \<Rightarrow> error + table" where
  "organizations_to_dataframe organizations_data =
     (case organizations_data of
        None \<Rightarrow> Inl AttributeError
      | Some root \<Rightarrow> Inr (map org_dict (findall root [Descendant ''Organisation''])))"

definition event_class_dict :: "element \<Rightarrow> row" where
  "event_class_dict event_class =
     [(''EventClassId'', findtext event_class [Child ''EventClassId'']),
      (''Name'', findtext event_class [Child ''Name'']),
      (''ClassShortName'', findtext event_class [Child ''ClassShortName'']),
      (''EventClassStatus'', attr_if_found event_class [Child ''EventClassStatus''] ''value''),
      (''ClassTypeId'', text_if_found event_class [Descendant ''ClassType'', Child ''ClassTypeId'']),
      (''ClassTypeShortName'',
         text_if_found event_class [Descendant ''ClassType'', Child ''ShortName'']),
      (''ClassTypeName'', text_if_found event_class [Descendant ''ClassType'', Child ''Name'']),
      (''ExternalId'', findtext event_class [Child ''ExternalId'']),
      (''PunchingUnitType'', attr_if_found event_class [Child ''PunchingUnitType''] ''value''),
      (''ClassRaceInfoId'',
         text_if_found event_class [Descendant ''ClassRaceInfo'', Child ''ClassRaceInfoId'']),
      (''EventRaceId'',
         text_if_found event_class [Descendant ''ClassRaceInfo'', Child ''EventRaceId'']),
      (''ClassRaceName'', text_if_found event_class [Descendant ''ClassRaceInfo'', Child ''Name'']),
      (''ClassRaceStatus'',
         attr_if_found event_class [Descendant ''ClassRaceInfo'', Child ''ClassRaceStatus''] ''value''),
      (''ClassRacePunchingUnitType'',
         attr_if_found event_class [Descendant ''ClassRaceInfo'', Child ''PunchingUnitType''] ''value''),
      (''MinRunners'', attr_if_found event_class [Descendant ''ClassRaceInfo''] ''minRunners''),
      (''MaxRunners'', attr_if_found event_class [Descendant ''ClassRaceInfo''] ''maxRunners''),
      (''NoOfEntries'', attr_if_found event_class [Descendant ''ClassRaceInfo''] ''noOfEntries''),
      (''NoOfStarts'', attr_if_found event_class [Descendant ''ClassRaceInfo''] ''noOfStarts''),
      (''Sex'', get event_class ''sex''),
      (''NumberOfEntries'', get event_class ''numberOfEntries'')]"

definition event_classes_to_dataframe :: "element option \<Rightarrow> error + table" where
  "event_classes_to_dataframe event_classes_data =
     (case event_classes_data of
        None \<Rightarrow> Inl AttributeError
      | Some root \<Rightarrow> Inr (map event_class_dict (findall root [Descendant ''EventClass''])))"

definition entry_fee_dict :: "element \<Rightarrow> row" where
  "entry_fee_dict entry_fee =
     [(''EntryFeeId'', findtext entry_fee [Child ''EntryFeeId'']),
      (''Name'', findtext entry_fee [Child ''Name'']),
      (''Amount'', findtext entry_fee [Child ''Amount'']),
      (''Currency'', attr_if_found entry_fee [Child ''Amount''] ''currency''),
      (''ExternalFee'', findtext entry_fee [Child ''ExternalFee'']),
      (''FromDateOfBirth'', text_if_found entry_fee [Descendant ''FromDateOfBirth'', Child ''Date'']),
      (''ToDateOfBirth'', text_if_found entry_fee [Descendant ''ToDateOfBirth'', Child ''Date'']),
      (''EntryFeeGroupId'', findtext entry_fee [Child ''EntryFeeGroupId'']),
      (''TaxIncluded'', get entry_fee ''taxIncluded''),
      (''EntryFeeType'', get entry_fee ''entryFeeType''),
      (''Type'', get entry_fee ''type'')]"

definition entryfees_to_dataframe :: "element option \<Rightarrow> error + table" where
  "entryfees_to_dataframe entryfees_data =
     (case entryfees_data of
        None \<Rightarrow> Inl AttributeError
      | Some root \<Rightarrow> Inr (map entry_fee_dict (findall root [Descendant ''EntryFee''])))"

definition entry_dict :: "element \<Rightarrow> row" where
  "entry_dict entry =
     [(''EntryId'', findtext entry [Child ''EntryId'']),
      (''CompetitorId'', text_if_found entry [Descendant ''Competitor'', Child ''CompetitorId'']),
      (''PersonId'', text_if_found entry [Descendant ''Competitor'', Child ''PersonId'']),
      (''OrganisationId'', text_if_found entry [Descendant ''Competitor'', Child ''OrganisationId'']),
      (''CCardId'', text_if_found entry [Descendant ''CCard'', Child ''CCardId'']),
      (''PunchingUnitType'',
         attr_if_found entry [Descendant ''CCard'', Child ''PunchingUnitType''] ''value''),
      (''EventClassId'', text_if_found entry [Descendant ''EntryClass'', Child ''EventClassId'']),
      (''EventId'', findtext entry [Child ''EventId'']),
      (''EventRaceId'', findtext entry [Child ''EventRaceId'']),
      (''BibNumber'', findtext entry [Child ''BibNumber'']),
      (''EntryDate'', text_if_found entry [Descendant ''EntryDate'', Child ''Date'']),
      (''EntryClock'', text_if_found entry [Descendant ''EntryDate'', Child ''Clock'']),
      (''EntryFeeGroupId'', findtext entry [Child ''EntryFeeGroupId'']),
      (''CreatedBy'', text_if_found entry [Descendant ''CreatedBy'', Child ''PersonId'']),
      (''ModifyDate'', text_if_found entry [Descendant ''ModifyDate'', Child ''Date'']),
      (''ModifyClock'', text_if_found entry [Descendant ''ModifyDate'', Child ''Clock'']),
      (''ModifiedBy'', text_if_found entry [Descendant ''ModifiedBy'', Child ''PersonId''])]"

definition entries_to_dataframe :: "element option \<Rightarrow> error + table" where
  "entries_to_dataframe entries_data =
     (case entries_data of
        None \<Rightarrow> Inl AttributeError
      | Some root \<Rightarrow> Inr (map entry_dict (findall root [Descendant ''Entry''])))"

definition competitor_count_dict :: "element \<Rightarrow> row" where
  "competitor_count_dict competitor_count =
     [(''eventId'', get competitor_count ''eventId''),
      (''numberOfEntries'', get competitor_count ''numberOfEntries''),
      (''numberOfStarts'', get competitor_count ''numberOfStarts'')]"

definition competitor_count_to_dataframe :: "element option \<Rightarrow> error + table" where
  "competitor_count_to_dataframe competitor_count_data =
     (case competitor_count_data of
        None \<Rightarrow> Inl AttributeError
      | Some root \<Rightarrow>
          Inr (map competitor_count_dict (findall root [Descendant ''CompetitorCount''])))"

text \<open>
  The memberships extractor reads the organisation once, before the loop
  (lines 371 to 374); without an organisation node, \<^verbatim>\<open>organisation\<close> is \<^verbatim>\<open>None\<close> and
  \<^verbatim>\<open>organisation.findtext\<close> raises.
\<close>

definition membership_dict ::
  "string option \<Rightarrow> string option \<Rightarrow> string option \<Rightarrow> element \<Rightarrow> row" where
  "membership_dict organisation_id organisation_name organisation_shortname membership =
     [(''OrganisationId'', organisation_id),
      (''OrganisationName'', organisation_name),
      (''OrganisationShortName'', organisation_shortname),
      (''MembershipId'', findtext membership [Child ''Id'']),
      (''Year'', findtext membership [Child ''Year'']),
      (''TypeId'', text_if_found membership [Descendant ''Type'', Child ''Id'']),
      (''TypeName'', text_if_found membership [Descendant ''Type'', Child ''Name'']),
      (''PersonId'', text_if_found membership [Descendant ''Person'', Child ''Id'']),
      (''FirstName'', text_if_found membership [Descendant ''Person'', Child ''FirstName'']),
      (''LastName'', text_if_found membership [Descendant ''Person'', Child ''LastName'']),
      (''BirthDate'', text_if_found membership [Descendant ''Person'', Child ''BirthDate'']),
      (''Sex'', text_if_found membership [Descendant ''Person'', Child ''Sex'']),
      (''PaidTime'', findtext membership [Child ''PaidTime''])]"

definition memberships_to_dataframe :: "element option \<Rightarrow> error + table" where
  "memberships_to_dataframe memberships_data =
     (case memberships_data of
        None \<Rightarrow> Inl AttributeError
      | Some root \<Rightarrow>
         (case find_path root [Descendant ''Organisation''] of
            None \<Rightarrow> Inl AttributeError
          | Some organisation \<Rightarrow>
              Inr (map (membership_dict (findtext organisation [Child ''Id''])
                                        (findtext organisation [Child ''Name''])
                                        (findtext organisation [Child ''ShortName'']))
                       (findall root [Descendant ''Membership'']))))"

section \<open>The request client\<close>

text \<open>
  The values of the query-parameter dictionary: the strings the builders format, and
  the integers and booleans they pass on as they are.
\<close>

datatype pvalue = PStr string | PInt int | PBool bool

type_synonym params = "(string \<times> pvalue) list"

text \<open>\<^verbatim>\<open>str(n)\<close> of a Python integer.\<close>

fun str_nat :: "nat \<Rightarrow> string" where
  "str_nat n =
     (if n < 10 then [''0123456789'' ! n]
      else str_nat (n div 10) @ [''0123456789'' ! (n mod 10)])"

declare str_nat.simps [simp del]

definition str_int :: "int \<Rightarrow> string" where
  "str_int i = (if i < 0 then CHR ''-'' # str_nat (nat (- i)) else str_nat (nat i))"

text \<open>Truth of an optional string and of an optional list in an \<^verbatim>\<open>if\<close>.\<close>

definition truthy :: "'a list option \<Rightarrow> bool" where
  "truthy v = (case v of None \<Rightarrow> False | Some xs \<Rightarrow> xs \<noteq> [])"

text \<open>
  The outside world of \<^verbatim>\<open>_make_request\<close>: what \<^verbatim>\<open>requests.get\<close> does with a URL, the
  headers and the parameters (a \<^verbatim>\<open>RequestException\<close>, or a response with its status code
  and body), and what \<^verbatim>\<open>ET.fromstring\<close> does with a body (a \<^verbatim>\<open>ParseError\<close> with its
  message, or the tree).
\<close>

record response =
  status_code :: nat
  resp_text :: string

record transport =
  requests_get :: "string \<Rightarrow> (string \<times> string) list \<Rightarrow> params option
                     \<Rightarrow> request_exception + response"
  fromstring :: "string \<Rightarrow> string + element"

text \<open>
  \<^verbatim>\<open>response.raise_for_status()\<close> of the \<^verbatim>\<open>requests\<close> library raises \<^verbatim>\<open>HTTPError\<close>, a
  \<^verbatim>\<open>RequestException\<close>, for the client and server error codes 400 to 599, and for no
  other status.
\<close>

definition raise_for_status :: "response \<Rightarrow> request_exception + unit" where
  "raise_for_status r =
     (if 400 \<le> status_code r \<and> status_code r < 600
      then Inl (HTTPError (status_code r)) else Inr ())"

text \<open>
  What a call leaves behind: the GET requests issued, in order, and the lines logged
  with \<^verbatim>\<open>logging.error\<close>: \<^verbatim>\<open>"API request failed: {e}"\<close> and
  \<^verbatim>\<open>"XMLParseError: {e}. Response text: {response.text}"\<close>.
\<close>

datatype log_entry = ApiRequestFailed request_exception | XMLParseError string string

record world =
  requests_sent :: "(string \<times> params option) list"
  logged :: "log_entry list"

record eventor_api =
  api_key :: string
  headers :: "(string \<times> string) list"

definition BASE_URL :: string where
  "BASE_URL = ''https://eventor.orienteering.asn.au/api''"

definition init :: "string \<Rightarrow> eventor_api" where
  "init key = \<lparr>api_key = key, headers = [(''ApiKey'', key)]\<rparr>"

definition make_request ::
  "transport \<Rightarrow> eventor_api \<Rightarrow> string \<Rightarrow> params option \<Rightarrow> world
     \<Rightarrow> (error + element option) \<times> world" where
  "make_request tr self endpoint ps w =
     (let url = BASE_URL @ ''/'' @ endpoint;
          w1 = w\<lparr>requests_sent := requests_sent w @ [(url, ps)]\<rparr>
      in case requests_get tr url (headers self) ps of
           Inl e \<Rightarrow> (Inl (RequestException e), w1\<lparr>logged := logged w1 @ [ApiRequestFailed e]\<rparr>)
         | Inr response \<Rightarrow>
            (case raise_for_status response of
               Inl e \<Rightarrow>
                 (Inl (RequestException e), w1\<lparr>logged := logged w1 @ [ApiRequestFailed e]\<rparr>)
             | Inr _ \<Rightarrow>
                (case fromstring tr (resp_text response) of
                   Inl msg \<Rightarrow>
                     (Inr None,
                      w1\<lparr>logged := logged w1 @ [XMLParseError msg (resp_text response)]\<rparr>)
                 | Inr root \<Rightarrow> (Inr (Some root), w1))))"

section \<open>The request builders\<close>

text \<open>
  \<^verbatim>\<open>if v: params[k] = f(v)\<close> for an optional string or list \<open>v\<close>, and the two formats
  \<^verbatim>\<open>f"{d} 00:00:00"\<close>, \<^verbatim>\<open>f"{d} 23:59:59"\<close> and \<^verbatim>\<open>','.join(map(str, ids))\<close>.
\<close>

definition day_start :: "string \<Rightarrow> string" where
  "day_start d = d @ '' 00:00:00''"

definition day_end :: "string \<Rightarrow> string" where
  "day_end d = d @ '' 23:59:59''"

definition join_ids :: "int list \<Rightarrow> string" where
  "join_ids ids = join '','' (map str_int ids)"

definition if_truthy :: "string \<Rightarrow> ('a list \<Rightarrow> string) \<Rightarrow> 'a list option \<Rightarrow> params" where
  "if_truthy k f v = (if truthy v then [(k, PStr (f (the v)))] else [])"

text \<open>\<^verbatim>\<open>if v is not None: params[k] = f(v)\<close>, as \<^verbatim>\<open>get_competitor_count\<close> has it.\<close>

definition if_not_none :: "string \<Rightarrow> ('a list \<Rightarrow> string) \<Rightarrow> 'a list option \<Rightarrow> params" where
  "if_not_none k f v = (case v of None \<Rightarrow> [] | Some x \<Rightarrow> [(k, PStr (f x))])"

definition get_events_params ::
  "string option \<Rightarrow> string option \<Rightarrow> int list option \<Rightarrow> params" where
  "get_events_params from_date to_date classification_ids =
     if_truthy ''fromDate'' day_start from_date
     @ if_truthy ''toDate'' day_end to_date
     @ if_truthy ''classificationIds'' join_ids classification_ids"

definition get_events ::
  "transport \<Rightarrow> eventor_api \<Rightarrow> string option \<Rightarrow> string option \<Rightarrow> int list option
     \<Rightarrow> world \<Rightarrow> (error + element option) \<times> world" where
  "get_events tr self from_date to_date classification_ids =
     make_request tr self ''events''
       (Some (get_events_params from_date to_date classification_ids))"

definition get_organizations ::
  "transport \<Rightarrow> eventor_api \<Rightarrow> world \<Rightarrow> (error + element option) \<times> world" where
  "get_organizations tr self = make_request tr self ''organisations'' None"

definition get_event_classes_params :: "int \<Rightarrow> bool \<Rightarrow> params" where
  "get_event_classes_params event_id include_entry_fees =
     [(''eventId'', PInt event_id), (''includeEntryFees'', PBool include_entry_fees)]"

definition get_event_classes ::
  "transport \<Rightarrow> eventor_api \<Rightarrow> int \<Rightarrow> bool \<Rightarrow> world \<Rightarrow> (error + element option) \<times> world" where
  "get_event_classes tr self event_id include_entry_fees =
     make_request tr self ''eventclasses''
       (Some (get_event_classes_params event_id include_entry_fees))"

definition get_entryfees ::
  "transport \<Rightarrow> eventor_api \<Rightarrow> int \<Rightarrow> world \<Rightarrow> (error + element option) \<times> world" where
  "get_entryfees tr self event_id =
     make_request tr self (''entryfees/events/'' @ str_int event_id) None"

definition get_entries_params ::
  "int list option \<Rightarrow> int list option \<Rightarrow> int list option
     \<Rightarrow> string option \<Rightarrow> string option \<Rightarrow> string option \<Rightarrow> string option
     \<Rightarrow> string option \<Rightarrow> string option
     \<Rightarrow> bool \<Rightarrow> bool \<Rightarrow> bool \<Rightarrow> bool \<Rightarrow> params" where
  "get_entries_params organisation_ids event_ids event_class_ids
       from_event_date to_event_date from_entry_date to_entry_date
       from_modify_date to_modify_date
       include_entry_fees include_person_element include_organisation_element
       include_event_element =
     if_truthy ''organisationIds'' join_ids organisation_ids
     @ if_truthy ''eventIds'' join_ids event_ids
     @ if_truthy ''eventClassIds'' join_ids event_class_ids
     @ if_truthy ''fromEventDate'' day_start from_event_date
     @ if_truthy ''toEventDate'' day_end to_event_date
     @ if_truthy ''fromEntryDate'' day_start from_entry_date
     @ if_truthy ''toEntryDate'' day_end to_entry_date
     @ if_truthy ''fromModifyDate'' day_start from_modify_date
     @ if_truthy ''toModifyDate'' day_end to_modify_date
     @ [(''includeEntryFees'', PBool include_entry_fees),
        (''includePersonElement'', PBool include_person_element),
        (''includeOrganisationElement'', PBool include_organisation_element),
        (''includeEventElement'', PBool include_event_element)]"

definition get_entries ::
  "transport \<Rightarrow> eventor_api
     \<Rightarrow> int list option \<Rightarrow> int list option \<Rightarrow> int list option
     \<Rightarrow> string option \<Rightarrow> string option \<Rightarrow> string option \<Rightarrow> string option
     \<Rightarrow> string option \<Rightarrow> string option
     \<Rightarrow> bool \<Rightarrow> bool \<Rightarrow> bool \<Rightarrow> bool
     \<Rightarrow> world \<Rightarrow> (error + element option) \<times> world" where
  "get_entries tr self organisation_ids event_ids event_class_ids
       from_event_date to_event_date from_entry_date to_entry_date
       from_modify_date to_modify_date
       include_entry_fees include_person_element include_organisation_element
       include_event_element =
     make_request tr self ''entries''
       (Some (get_entries_params organisation_ids event_ids event_class_ids
                from_event_date to_event_date from_entry_date to_entry_date
                from_modify_date to_modify_date
                include_entry_fees include_person_element include_organisation_element
                include_event_element))"

definition get_competitor_count_params ::
  "int list option \<Rightarrow> int list option \<Rightarrow> int list option \<Rightarrow> params" where
  "get_competitor_count_params organisation_ids event_ids person_ids =
     if_not_none ''organisationIds'' join_ids organisation_ids
     @ if_not_none ''eventIds'' join_ids event_ids
     @ if_not_none ''personIds'' join_ids person_ids"

definition get_competitor_count ::
  "transport \<Rightarrow> eventor_api \<Rightarrow> int list option \<Rightarrow> int list option \<Rightarrow> int list option
     \<Rightarrow> world \<Rightarrow> (error + element option) \<times> world" where
  "get_competitor_count tr self organisation_ids event_ids person_ids =
     make_request tr self ''competitorcount''
       (Some (get_competitor_count_params organisation_ids event_ids person_ids))"

definition get_memberships_params :: "int \<Rightarrow> int \<Rightarrow> bool \<Rightarrow> bool \<Rightarrow> params" where
  "get_memberships_params organisation_id year include_child_organisations
       include_contact_details =
     [(''organisationId'', PInt organisation_id),
      (''year'', PInt year),
      (''includeChildOrganisations'', PBool include_child_organisations),
      (''includeContactDetails'', PBool include_contact_details)]"

definition get_memberships ::
  "transport \<Rightarrow> eventor_api \<Rightarrow> int \<Rightarrow> int \<Rightarrow> bool \<Rightarrow> bool
     \<Rightarrow> world \<Rightarrow> (error + element option) \<times> world" where
  "get_memberships tr self organisation_id year include_child_organisations
       include_contact_details =
     make_request tr self ''memberships''
       (Some (get_memberships_params organisation_id year include_child_organisations
                include_contact_details))"

section \<open>The discipline helper\<close>

text \<open>
  \<^verbatim>\<open>disciplines\<close> is a Python set of pairs. It is kept here as a list without
  repetitions, in the order of first insertion; Python fixes no order for
  \<^verbatim>\<open>list(disciplines)\<close>, so only the rows as a collection and their number mean anything.
\<close>

definition set_add :: "'a \<Rightarrow> 'a list \<Rightarrow> 'a list" where
  "set_add x xs = (if x \<in> set xs then xs else xs @ [x])"

definition add_discipline :: "(string \<times> string) list \<Rightarrow> element \<Rightarrow> (string \<times> string) list" where
  "add_discipline disciplines discipline =
     (let discipline_id = findtext discipline [Child ''DisciplineId''];
          name = findtext discipline [Child ''Name'']
      in if truthy discipline_id \<and> truthy name
         then set_add (the discipline_id, the name) disciplines
         else disciplines)"

definition unique_disciplines :: "element \<Rightarrow> (string \<times> string) list" where
  "unique_disciplines events_data =
     foldl (\<lambda>disciplines event.
              foldl add_discipline disciplines (findall event [Descendant ''Discipline'']))
       [] (findall events_data [Descendant ''Event''])"

definition discipline_row :: "string \<times> string \<Rightarrow> row" where
  "discipline_row d = [(''DisciplineId'', Some (fst d)), (''Name'', Some (snd d))]"

definition extract_disciplines_from_events ::
  "transport \<Rightarrow> eventor_api \<Rightarrow> string option \<Rightarrow> string option
     \<Rightarrow> world \<Rightarrow> (error + table) \<times> world" where
  "extract_disciplines_from_events tr self from_date to_date w =
     (case get_events tr self from_date to_date None w of
        (Inl e, w') \<Rightarrow> (Inl e, w')
      | (Inr None, w') \<Rightarrow> (Inl AttributeError, w')
      | (Inr (Some events_data), w') \<Rightarrow>
          (Inr (map discipline_row (unique_disciplines events_data)), w'))"

section \<open>Observations and example inputs\<close>

text \<open>
  The query parameter \<open>k\<close> of the last GET request a call has issued: what went out
  under that name, or nothing.
\<close>

definition sent_param :: "'a \<times> world \<Rightarrow> string \<Rightarrow> pvalue option" where
  "sent_param r k =
     (case snd (last (requests_sent (snd r))) of None \<Rightarrow> None | Some ps \<Rightarrow> map_of ps k)"

text \<open>\<^verbatim>\<open>s.split(c)\<close> for a one-character separator, to read a joined list back.\<close>

fun split_on :: "char \<Rightarrow> string \<Rightarrow> string list" where
  "split_on c [] = [[]]"
| "split_on c (x # xs) =
     (if x = c then [] # split_on c xs
      else (case split_on c xs of [] \<Rightarrow> [[x]] | w # ws \<Rightarrow> (x # w) # ws))"

text \<open>
  The keys of the dictionary literal of the events extractor, the keys both branches
  of the race part set, and the two together.
\<close>

definition base_columns :: "string list" where
  "base_columns =
     [''EventId'', ''Name'', ''StartDate'', ''StartClock'', ''FinishDate'', ''FinishClock'',
      ''EventClassificationId'', ''EventStatusId'', ''OrganisationId'', ''WebURL'',
      ''PunchingUnitType'', ''DisciplineIds'']"

definition race_columns :: "string list" where
  "race_columns =
     [''EventRaceId'', ''EventRaceName'', ''RaceDate'', ''RaceClock'',
      ''EventCenterX'', ''EventCenterY'', ''EventCenterUnit'']"

definition event_columns :: "string list" where
  "event_columns = base_columns @ race_columns"

text \<open>
  One event with a race of distance 5000 and no centre position, and its record; one
  event without a race, and its record.
\<close>

definition race_scenario :: element where
  "race_scenario =
     Element ''EventList'' [] None
       [Element ''Event'' [] None
          [Element ''EventId'' [] (Some ''1'') [],
           Element ''EventRace'' [(''raceDistance'', ''5000'')] None
             [Element ''EventRaceId'' [] (Some ''11'') []]]]"

definition race_scenario_row :: row where
  "race_scenario_row =
     [(''EventId'', Some ''1''), (''Name'', None), (''StartDate'', None),
      (''StartClock'', None), (''FinishDate'', None), (''FinishClock'', None),
      (''EventClassificationId'', None), (''EventStatusId'', None),
      (''OrganisationId'', None), (''WebURL'', None), (''PunchingUnitType'', None),
      (''DisciplineIds'', Some []),
      (''EventRaceDistance'', Some ''5000''), (''EventRaceId'', Some ''11''),
      (''EventRaceName'', Some []), (''RaceDate'', None), (''RaceClock'', None),
      (''EventCenterX'', None), (''EventCenterY'', None), (''EventCenterUnit'', None)]"

definition no_race_scenario :: element where
  "no_race_scenario =
     Element ''EventList'' [] None
       [Element ''Event'' [] None [Element ''EventId'' [] (Some ''1'') []]]"

definition no_race_row :: row where
  "no_race_row =
     [(''EventId'', Some ''1''), (''Name'', None), (''StartDate'', None),
      (''StartClock'', None), (''FinishDate'', None), (''FinishClock'', None),
      (''EventClassificationId'', None), (''EventStatusId'', None),
      (''OrganisationId'', None), (''WebURL'', None), (''PunchingUnitType'', None),
      (''DisciplineIds'', Some []),
      (''EventRaceId'', None),
      (''EventRaceName'', Some []), (''RaceDate'', None), (''RaceClock'', None),
      (''EventCenterX'', None), (''EventCenterY'', None), (''EventCenterUnit'', None)]"

text \<open>
  A transport that answers every request and every parse in one fixed way, a client and
  the world before any call, for concrete runs.
\<close>

definition fixed_transport :: "request_exception + response \<Rightarrow> string + element \<Rightarrow> transport" where
  "fixed_transport answer parsed =
     \<lparr>requests_get = (\<lambda>url hs ps. answer), fromstring = (\<lambda>body. parsed)\<rparr>"

definition ok_transport :: transport where
  "ok_transport =
     fixed_transport (Inr \<lparr>status_code = 200, resp_text = ''<EventList/>''\<rparr>)
       (Inr (Element ''EventList'' [] None []))"

definition demo_api :: eventor_api where
  "demo_api = init ''secret''"

definition world0 :: world where
  "world0 = \<lparr>requests_sent = [], logged = []\<rparr>"

text \<open>
  The world after one more GET request, and after one more logged line. Then four
  transports: a refused connection, a 404, a body that does not parse, and a 304 whose
  body parses.
\<close>

definition sent_once :: "world \<Rightarrow> string \<Rightarrow> params option \<Rightarrow> world" where
  "sent_once w endpoint ps =
     w\<lparr>requests_sent := requests_sent w @ [(BASE_URL @ ''/'' @ endpoint, ps)]\<rparr>"

definition log_line :: "world \<Rightarrow> log_entry \<Rightarrow> world" where
  "log_line w l = w\<lparr>logged := logged w @ [l]\<rparr>"

definition refused_transport :: transport where
  "refused_transport =
     fixed_transport (Inl (ConnectionError ''connection refused''))
       (Inr (Element ''EventList'' [] None []))"

definition not_found_transport :: transport where
  "not_found_transport =
     fixed_transport (Inr \<lparr>status_code = 404, resp_text = ''Not Found''\<rparr>)
       (Inl ''syntax error: line 1, column 0'')"

definition malformed_transport :: transport where
  "malformed_transport =
     fixed_transport (Inr \<lparr>status_code = 200, resp_text = ''<EventList>''\<rparr>)
       (Inl ''no element found: line 1, column 11'')"

definition not_modified_transport :: transport where
  "not_modified_transport =
     fixed_transport (Inr \<lparr>status_code = 304, resp_text = ''<EventList/>''\<rparr>)
       (Inr (Element ''EventList'' [] None []))"

text \<open>One organisation, \<^verbatim>\<open>Id\<close> 7 and \<^verbatim>\<open>Name\<close> Acme, and two memberships.\<close>

definition acme_scenario :: element where
  "acme_scenario =
     Element ''MembershipList'' [] None
       [Element ''Organisation'' [] None
          [Element ''Id'' [] (Some ''7'') [], Element ''Name'' [] (Some ''Acme'') []],
        Element ''Membership'' [] None
          [Element ''Id'' [] (Some ''100'') [], Element ''Year'' [] (Some ''2024'') []],
        Element ''Membership'' [] None
          [Element ''Id'' [] (Some ''101'') [], Element ''Year'' [] (Some ''2024'') []]]"

text \<open>
  The pairs the discipline helper reads off the \<^verbatim>\<open>Discipline\<close> nodes of one event, as
  \<^verbatim>\<open>findtext\<close> returns them, and the step of its loop on such a pair. Then three
  events, two of them with the same discipline, and a transport that answers with them.
\<close>

definition disciplines_of_event :: "element \<Rightarrow> (string option \<times> string option) list" where
  "disciplines_of_event event =
     map (\<lambda>d. (findtext d [Child ''DisciplineId''], findtext d [Child ''Name'']))
       (findall event [Descendant ''Discipline''])"

definition add_pair ::
  "(string \<times> string) list \<Rightarrow> string option \<times> string option \<Rightarrow> (string \<times> string) list" where
  "add_pair ds p =
     (if truthy (fst p) \<and> truthy (snd p) then set_add (the (fst p), the (snd p)) ds else ds)"

definition discipline :: "string \<Rightarrow> string \<Rightarrow> element" where
  "discipline i n =
     Element ''Discipline'' [] None
       [Element ''DisciplineId'' [] (Some i) [], Element ''Name'' [] (Some n) []]"

definition disciplines_scenario :: element where
  "disciplines_scenario =
     Element ''EventList'' [] None
       [Element ''Event'' [] None [discipline ''1'' ''Foot''],
        Element ''Event'' [] None [discipline ''2'' ''Ski''],
        Element ''Event'' [] None [discipline ''1'' ''Foot'']]"

definition disciplines_transport :: transport where
  "disciplines_transport =
     fixed_transport (Inr \<lparr>status_code = 200, resp_text = ''<EventList>...</EventList>''\<rparr>)
       (Inr disciplines_scenario)"

text \<open>
  Where a field comes from, relative to the node its record is built from: the element
  at a path, read with \<^verbatim>\<open>findtext\<close>; the text of the node; an attribute of the node;
  or one of these inside the first element at a path. A guarded
  \<^verbatim>\<open>X.find(P).text\<close> is \<open>Within P Text\<close>, a guarded \<^verbatim>\<open>X.find(P).get(a)\<close> is
  \<open>Within P (Attr a)\<close>. The source is absent when a path on the way finds nothing, or
  the text or attribute at its end is missing.
\<close>

datatype lookup = FindText path | Text | Attr string | Within path lookup


type_synonym schema = "(string \<times> lookup) list"









definition membership_schema :: schema where
  "membership_schema =
     [(''MembershipId'', FindText [Child ''Id'']),
      (''Year'', FindText [Child ''Year'']),
      (''TypeId'', Within [Descendant ''Type'', Child ''Id''] Text),
      (''TypeName'', Within [Descendant ''Type'', Child ''Name''] Text),
      (''PersonId'', Within [Descendant ''Person'', Child ''Id''] Text),
      (''FirstName'', Within [Descendant ''Person'', Child ''FirstName''] Text),
      (''LastName'', Within [Descendant ''Person'', Child ''LastName''] Text),
      (''BirthDate'', Within [Descendant ''Person'', Child ''BirthDate''] Text),
      (''Sex'', Within [Descendant ''Person'', Child ''Sex''] Text),
      (''PaidTime'', FindText [Child ''PaidTime''])]"

definition organisation_schema :: schema where
  "organisation_schema =
     [(''OrganisationId'', Within [Descendant ''Organisation''] (FindText [Child ''Id''])),
      (''OrganisationName'', Within [Descendant ''Organisation''] (FindText [Child ''Name''])),
      (''OrganisationShortName'',
         Within [Descendant ''Organisation''] (FindText [Child ''ShortName'']))]"







definition organiser_without_id :: element where
  "organiser_without_id =
     Element ''EventList'' [] None
       [Element ''Event'' [] None
          [Element ''EventId'' [] (Some ''1'') [], Element ''Organiser'' [] None []]]"

definition memberships_without_organisation :: element where
  "memberships_without_organisation =
     Element ''MembershipList'' [] None
       [Element ''Membership'' [] None [Element ''Id'' [] (Some ''100'') []]]"


section \<open>Basic facts\<close>

lemmas et_eval = findall_def find_path_def findtext_def text_if_found_def attr_if_found_def
  descendants_def get_def

lemmas extract_eval = events_to_dataframe_def event_dict_def organiser_id_def
  discipline_ids_def event_race_fields_def or_empty_def et_eval

lemma collect_Inr:
  "collect f xs = Inr rs \<Longrightarrow>
   length rs = length xs \<and> (\<forall>i < length xs. f (xs ! i) = Inr (rs ! i))"
proof (induction xs arbitrary: rs)
  case Nil
  then show ?case by simp
next
  case (Cons x xs)
  then obtain r rs' where fx: "f x = Inr r" and c: "collect f xs = Inr rs'"
    and rs: "rs = r # rs'"
    by (auto split: sum.splits)
  from Cons.IH [OF c] have "length rs' = length xs"
    and "\<forall>i < length xs. f (xs ! i) = Inr (rs' ! i)"
    by simp_all
  then show ?case using fx rs by (auto simp: nth_Cons split: nat.splits)
qed

lemma sent_param_make_request:
  "sent_param (make_request tr self endpoint ps w) k =
     (case ps of None \<Rightarrow> None | Some q \<Rightarrow> map_of q k)"
  by (simp add: sent_param_def make_request_def Let_def split: sum.splits)

lemma map_of_if_truthy:
  "map_of (if_truthy k f v) k' =
     (if k' = k \<and> truthy v then Some (PStr (f (the v))) else None)"
  by (simp add: if_truthy_def)

lemma map_of_if_not_none:
  "map_of (if_not_none k f v) k' =
     (if k' = k \<and> v \<noteq> None then Some (PStr (f (the v))) else None)"
  by (simp add: if_not_none_def split: option.splits)

lemma truthy_Some: "truthy (Some xs) = (xs \<noteq> [])"
  by (simp add: truthy_def)

lemmas builder_eval = get_events_def get_entries_def get_competitor_count_def
  get_event_classes_def get_memberships_def sent_param_make_request get_events_params_def
  get_entries_params_def get_competitor_count_params_def get_event_classes_params_def
  get_memberships_params_def map_of_if_truthy map_of_if_not_none truthy_Some map_add_def

section \<open>The sentinel\<close>

text \<open>
  C1. Given the "no data" sentinel, every one of the seven extractors returns an empty
  table rather than raising. The code does so in the events extractor only; each of
  the other six raises \<^verbatim>\<open>AttributeError\<close>. The theorem records what the code does.
\<close>

theorem sentinel_handled_by_events_only:
  "events_to_dataframe None = Inr []
   \<and> organizations_to_dataframe None = Inl AttributeError
   \<and> event_classes_to_dataframe None = Inl AttributeError
   \<and> entryfees_to_dataframe None = Inl AttributeError
   \<and> entries_to_dataframe None = Inl AttributeError
   \<and> competitor_count_to_dataframe None = Inl AttributeError
   \<and> memberships_to_dataframe None = Inl AttributeError"
  by (simp add: events_to_dataframe_def organizations_to_dataframe_def
      event_classes_to_dataframe_def entryfees_to_dataframe_def entries_to_dataframe_def
      competitor_count_to_dataframe_def memberships_to_dataframe_def)

section \<open>Query parameters\<close>

text \<open>
  C5. A non-empty date string \<open>D\<close> given as a "from" bound goes out as
  \<open>D 00:00:00\<close>, and given as a "to" bound as \<open>D 23:59:59\<close>, in \<^verbatim>\<open>get_events\<close> and
  for each of the three date ranges of \<^verbatim>\<open>get_entries\<close>.
\<close>

theorem date_bounds_serialized:
  assumes "D \<noteq> []"
  shows "sent_param (get_events tr self (Some D) t c w) ''fromDate''
           = Some (PStr (D @ '' 00:00:00''))
    \<and> sent_param (get_events tr self f (Some D) c w) ''toDate''
           = Some (PStr (D @ '' 23:59:59''))
    \<and> sent_param (get_entries tr self o1 o2 o3 (Some D) d2 d3 d4 d5 d6 b1 b2 b3 b4 w)
           ''fromEventDate'' = Some (PStr (D @ '' 00:00:00''))
    \<and> sent_param (get_entries tr self o1 o2 o3 d1 (Some D) d3 d4 d5 d6 b1 b2 b3 b4 w)
           ''toEventDate'' = Some (PStr (D @ '' 23:59:59''))
    \<and> sent_param (get_entries tr self o1 o2 o3 d1 d2 (Some D) d4 d5 d6 b1 b2 b3 b4 w)
           ''fromEntryDate'' = Some (PStr (D @ '' 00:00:00''))
    \<and> sent_param (get_entries tr self o1 o2 o3 d1 d2 d3 (Some D) d5 d6 b1 b2 b3 b4 w)
           ''toEntryDate'' = Some (PStr (D @ '' 23:59:59''))
    \<and> sent_param (get_entries tr self o1 o2 o3 d1 d2 d3 d4 (Some D) d6 b1 b2 b3 b4 w)
           ''fromModifyDate'' = Some (PStr (D @ '' 00:00:00''))
    \<and> sent_param (get_entries tr self o1 o2 o3 d1 d2 d3 d4 d5 (Some D) b1 b2 b3 b4 w)
           ''toModifyDate'' = Some (PStr (D @ '' 23:59:59''))"
  using assms by (simp add: builder_eval day_start_def day_end_def)

theorem date_bounds_serialized_witness:
  "''2024-01-31'' \<noteq> []
   \<and> sent_param (get_events ok_transport demo_api (Some ''2024-01-31'') None None world0)
        ''fromDate'' = Some (PStr ''2024-01-31 00:00:00'')
   \<and> sent_param (get_events ok_transport demo_api None (Some ''2024-01-31'') None world0)
        ''toDate'' = Some (PStr ''2024-01-31 23:59:59'')"
  using date_bounds_serialized [of "''2024-01-31''" ok_transport demo_api None None world0 None]
  by simp

text \<open>
  C8. A boolean given to \<^verbatim>\<open>get_event_classes\<close>, \<^verbatim>\<open>get_entries\<close> or
  \<^verbatim>\<open>get_memberships\<close> is placed in the outgoing parameter mapping as the boolean
  itself: the literal true or false.
\<close>

theorem booleans_passed_as_literals:
  "sent_param (get_event_classes tr self event_id b w) ''includeEntryFees'' = Some (PBool b)
   \<and> sent_param (get_entries tr self o1 o2 o3 d1 d2 d3 d4 d5 d6 b1 b2 b3 b4 w)
        ''includeEntryFees'' = Some (PBool b1)
   \<and> sent_param (get_entries tr self o1 o2 o3 d1 d2 d3 d4 d5 d6 b1 b2 b3 b4 w)
        ''includePersonElement'' = Some (PBool b2)
   \<and> sent_param (get_entries tr self o1 o2 o3 d1 d2 d3 d4 d5 d6 b1 b2 b3 b4 w)
        ''includeOrganisationElement'' = Some (PBool b3)
   \<and> sent_param (get_entries tr self o1 o2 o3 d1 d2 d3 d4 d5 d6 b1 b2 b3 b4 w)
        ''includeEventElement'' = Some (PBool b4)
   \<and> sent_param (get_memberships tr self organisation_id year c1 c2 w)
        ''includeChildOrganisations'' = Some (PBool c1)
   \<and> sent_param (get_memberships tr self organisation_id year c1 c2 w)
        ''includeContactDetails'' = Some (PBool c2)"
  by (simp add: builder_eval)

lemma digit_not_comma: "k < 10 \<Longrightarrow> ''0123456789'' ! k \<noteq> CHR '',''"
proof -
  assume "k < 10"
  then have "k \<in> {0, 1, 2, 3, 4, 5, 6, 7, 8, 9}" by auto
  then show ?thesis by auto
qed

lemma str_nat_no_comma: "CHR '','' \<notin> set (str_nat n)"
proof (induction n rule: str_nat.induct)
  case (1 n)
  show ?case
  proof (cases "n < 10")
    case True
    then show ?thesis using digit_not_comma [of n] by (subst str_nat.simps) simp
  next
    case False
    then show ?thesis using 1 digit_not_comma [of "n mod 10"]
      by (subst str_nat.simps) simp
  qed
qed

lemma str_int_no_comma: "CHR '','' \<notin> set (str_int i)"
  by (simp add: str_int_def str_nat_no_comma)

lemma split_on_append_no_sep:
  "c \<notin> set x \<Longrightarrow> split_on c (x @ c # rest) = x # split_on c rest"
  by (induction x) auto

lemma split_on_no_sep: "c \<notin> set x \<Longrightarrow> split_on c x = [x]"
  by (induction x) auto

lemma split_on_join:
  "xs \<noteq> [] \<Longrightarrow> \<forall>x \<in> set xs. c \<notin> set x \<Longrightarrow> split_on c (join [c] xs) = xs"
proof (induction "[c]" xs rule: join.induct)
  case 1
  then show ?case by simp
next
  case (2 x)
  then show ?case by (simp add: split_on_no_sep)
next
  case (3 x y ys)
  then show ?case by (simp add: split_on_append_no_sep)
qed

lemma split_on_join_ids:
  "ids \<noteq> [] \<Longrightarrow> split_on CHR '','' (join_ids ids) = map str_int ids"
  unfolding join_ids_def
  by (rule split_on_join) (auto simp: str_int_no_comma)

text \<open>
  C9. A non-empty list of ids goes out as one string, the ids joined by commas in the
  order given: in \<^verbatim>\<open>get_events\<close>, \<^verbatim>\<open>get_entries\<close> and \<^verbatim>\<open>get_competitor_count\<close> the
  parameter is \<open>join_ids ids\<close>, and splitting that string at the commas gives back
  the ids' decimal forms, one by one, in the input order.
\<close>

theorem id_lists_comma_joined:
  assumes "ids \<noteq> []"
  shows "sent_param (get_events tr self f t (Some ids) w) ''classificationIds''
           = Some (PStr (join_ids ids))
    \<and> sent_param (get_entries tr self (Some ids) o2 o3 d1 d2 d3 d4 d5 d6 b1 b2 b3 b4 w)
           ''organisationIds'' = Some (PStr (join_ids ids))
    \<and> sent_param (get_entries tr self o1 (Some ids) o3 d1 d2 d3 d4 d5 d6 b1 b2 b3 b4 w)
           ''eventIds'' = Some (PStr (join_ids ids))
    \<and> sent_param (get_entries tr self o1 o2 (Some ids) d1 d2 d3 d4 d5 d6 b1 b2 b3 b4 w)
           ''eventClassIds'' = Some (PStr (join_ids ids))
    \<and> sent_param (get_competitor_count tr self (Some ids) cb cc w) ''organisationIds''
           = Some (PStr (join_ids ids))
    \<and> sent_param (get_competitor_count tr self ca (Some ids) cc w) ''eventIds''
           = Some (PStr (join_ids ids))
    \<and> sent_param (get_competitor_count tr self ca cb (Some ids) w) ''personIds''
           = Some (PStr (join_ids ids))
    \<and> split_on CHR '','' (join_ids ids) = map str_int ids"
  using assms by (simp add: builder_eval split_on_join_ids)

theorem id_lists_comma_joined_witness:
  "[3, 1, 20] \<noteq> ([] :: int list)
   \<and> sent_param (get_events ok_transport demo_api None None (Some [3, 1, 20]) world0)
        ''classificationIds'' = Some (PStr ''3,1,20'')
   \<and> sent_param (get_competitor_count ok_transport demo_api None (Some [3, 1, 20]) None world0)
        ''eventIds'' = Some (PStr ''3,1,20'')
   \<and> split_on CHR '','' ''3,1,20'' = [''3'', ''1'', ''20'']"
proof -
  have j: "join_ids [3, 1, 20] = ''3,1,20''" by code_simp
  have m: "map str_int [3, 1, 20] = [''3'', ''1'', ''20'']" by code_simp
  from id_lists_comma_joined [where ids = "[3, 1, 20]" and tr = ok_transport
      and self = demo_api and f = None and t = None and w = world0 and ca = None
      and cc = None]
  show ?thesis unfolding j m by simp
qed

section \<open>The events record\<close>

lemma race_fields_keys: "set race_columns \<subseteq> fst ` set (event_race_fields event)"
  unfolding event_race_fields_def race_columns_def
  by (simp split: option.splits)

lemma race_fields_absent:
  "find_path event [Descendant ''EventRace''] = None \<Longrightarrow>
   event_race_fields event =
     [(''EventRaceId'', None), (''EventRaceName'', Some []),
      (''RaceDate'', None), (''RaceClock'', None),
      (''EventCenterX'', None), (''EventCenterY'', None), (''EventCenterUnit'', None)]"
  by (simp add: event_race_fields_def)

lemma race_fields_present:
  "find_path event [Descendant ''EventRace''] = Some race \<Longrightarrow>
   map_of (event_race_fields event) ''EventRaceDistance'' = Some (get race ''raceDistance'')
   \<and> (find_path race [Child ''RaceDate''] = None \<longrightarrow>
        map_of (event_race_fields event) ''RaceDate'' = Some None
        \<and> map_of (event_race_fields event) ''RaceClock'' = Some None)
   \<and> (find_path race [Descendant ''EventCenterPosition''] = None \<longrightarrow>
        map_of (event_race_fields event) ''EventCenterX'' = Some None
        \<and> map_of (event_race_fields event) ''EventCenterY'' = Some None
        \<and> map_of (event_race_fields event) ''EventCenterUnit'' = Some None)"
  by (simp add: event_race_fields_def split: option.splits)

lemma event_dict_Inr:
  "event_dict event = Inr r \<Longrightarrow>
   \<exists>base. r = base @ event_race_fields event \<and> map fst base = base_columns"
  by (auto simp: event_dict_def base_columns_def split: sum.splits)

lemma map_of_append_right:
  "k \<notin> fst ` set xs \<Longrightarrow> map_of (xs @ ys) k = map_of ys k"
  by (induction xs) auto

lemma race_key_not_base:
  "k \<in> set (''EventRaceDistance'' # race_columns) \<Longrightarrow> k \<notin> set base_columns"
  unfolding race_columns_def base_columns_def by auto

lemma event_dict_base:
  assumes "event_dict event = Inr r"
  shows "\<exists>base. r = base @ event_race_fields event \<and> fst ` set base = set base_columns"
proof -
  from event_dict_Inr [OF assms(1)] obtain base where r: "r = base @ event_race_fields event"
    and keys: "map fst base = base_columns" by blast
  from arg_cong [OF keys, of set] have "fst ` set base = set base_columns" by simp
  with r show ?thesis by blast
qed

lemma event_dict_race_lookup:
  assumes "event_dict event = Inr r" and "k \<in> set (''EventRaceDistance'' # race_columns)"
  shows "map_of r k = map_of (event_race_fields event) k"
proof -
  from event_dict_base [OF assms(1)] obtain base where r: "r = base @ event_race_fields event"
    and b: "fst ` set base = set base_columns" by blast
  from race_key_not_base [OF assms(2)] have "k \<notin> fst ` set base" unfolding b .
  then show ?thesis unfolding r by (rule map_of_append_right)
qed

lemma event_dict_columns:
  assumes "event_dict event = Inr r"
  shows "set event_columns \<subseteq> fst ` set r"
proof -
  from event_dict_base [OF assms(1)] obtain base where r: "r = base @ event_race_fields event"
    and b: "fst ` set base = set base_columns" by blast
  have e1: "fst ` set r = set base_columns \<union> fst ` set (event_race_fields event)"
    unfolding r set_append image_Un b by (rule refl)
  have e2: "set event_columns = set base_columns \<union> set race_columns"
    unfolding event_columns_def set_append by (rule refl)
  show ?thesis unfolding e1 e2 by (rule Un_mono [OF subset_refl race_fields_keys])
qed

lemma events_rows:
  assumes "events_to_dataframe (Some root) = Inr rows"
  shows "length rows = length (findall root [Descendant ''Event''])"
    and "i < length rows \<Longrightarrow>
         event_dict (findall root [Descendant ''Event''] ! i) = Inr (rows ! i)"
proof -
  from assms have c: "collect event_dict (findall root [Descendant ''Event'']) = Inr rows"
    by (simp add: events_to_dataframe_def)
  from collect_Inr [OF c] show "length rows = length (findall root [Descendant ''Event''])"
    by (rule conjunct1)
  from collect_Inr [OF c]
  show "i < length rows \<Longrightarrow>
        event_dict (findall root [Descendant ''Event''] ! i) = Inr (rows ! i)"
    by simp
qed

lemma race_scenario_eval:
  "events_to_dataframe (Some race_scenario) = Inr [race_scenario_row]"
  by (simp add: race_scenario_def race_scenario_row_def extract_eval)

lemma no_race_eval:
  "events_to_dataframe (Some no_race_scenario) = Inr [no_race_row]"
  by (simp add: no_race_scenario_def no_race_row_def extract_eval)

lemma race_scenario_events:
  "findall race_scenario [Descendant ''Event''] =
     [Element ''Event'' [] None
          [Element ''EventId'' [] (Some ''1'') [],
           Element ''EventRace'' [(''raceDistance'', ''5000'')] None
             [Element ''EventRaceId'' [] (Some ''11'') []]]]"
  by (simp add: race_scenario_def et_eval)

text \<open>
  C3, as the code has it. Whenever the events extractor returns, there is one record
  per event node, and each record has the nineteen columns of \<open>event_columns\<close>
  whichever optional groups are present. Without an \<^verbatim>\<open>EventRace\<close> node the race id,
  the race date and clock and the three centre fields are null, and the race name is
  the empty string, not null. With an \<^verbatim>\<open>EventRace\<close> node the race distance is its
  \<^verbatim>\<open>raceDistance\<close> attribute; the date and clock are null without a \<^verbatim>\<open>RaceDate\<close>
  node, and the centre fields are null without an \<^verbatim>\<open>EventCenterPosition\<close> node. So
  a race with \<^verbatim>\<open>raceDistance="5000"\<close> and no centre position gives
  \<^verbatim>\<open>EventRaceDistance="5000"\<close> and \<^verbatim>\<open>EventCenterX\<close> null.
\<close>

theorem event_record_columns:
  assumes "events_to_dataframe (Some root) = Inr rows"
    and "i < length rows"
    and "event = findall root [Descendant ''Event''] ! i"
    and "r = rows ! i"
  shows "length rows = length (findall root [Descendant ''Event''])
    \<and> set event_columns \<subseteq> fst ` set r
    \<and> (find_path event [Descendant ''EventRace''] = None \<longrightarrow>
          map_of r ''EventRaceName'' = Some (Some [])
          \<and> map_of r ''EventRaceId'' = Some None
          \<and> map_of r ''RaceDate'' = Some None
          \<and> map_of r ''RaceClock'' = Some None
          \<and> map_of r ''EventCenterX'' = Some None
          \<and> map_of r ''EventCenterY'' = Some None
          \<and> map_of r ''EventCenterUnit'' = Some None)
    \<and> (\<forall>race. find_path event [Descendant ''EventRace''] = Some race \<longrightarrow>
          map_of r ''EventRaceDistance'' = Some (get race ''raceDistance'')
          \<and> (find_path race [Child ''RaceDate''] = None \<longrightarrow>
               map_of r ''RaceDate'' = Some None \<and> map_of r ''RaceClock'' = Some None)
          \<and> (find_path race [Descendant ''EventCenterPosition''] = None \<longrightarrow>
               map_of r ''EventCenterX'' = Some None
               \<and> map_of r ''EventCenterY'' = Some None
               \<and> map_of r ''EventCenterUnit'' = Some None))"
proof -
  have len: "length rows = length (findall root [Descendant ''Event''])"
    by (rule events_rows(1) [OF assms(1)])
  have d: "event_dict event = Inr r"
    unfolding assms(3) assms(4) by (rule events_rows(2) [OF assms(1) assms(2)])
  have race: "map_of r k = map_of (event_race_fields event) k"
    if "k \<in> set (''EventRaceDistance'' # race_columns)" for k
    using d that by (rule event_dict_race_lookup)
  have rk: "map_of r ''EventRaceDistance'' = map_of (event_race_fields event) ''EventRaceDistance''"
    "map_of r ''EventRaceId'' = map_of (event_race_fields event) ''EventRaceId''"
    "map_of r ''EventRaceName'' = map_of (event_race_fields event) ''EventRaceName''"
    "map_of r ''RaceDate'' = map_of (event_race_fields event) ''RaceDate''"
    "map_of r ''RaceClock'' = map_of (event_race_fields event) ''RaceClock''"
    "map_of r ''EventCenterX'' = map_of (event_race_fields event) ''EventCenterX''"
    "map_of r ''EventCenterY'' = map_of (event_race_fields event) ''EventCenterY''"
    "map_of r ''EventCenterUnit'' = map_of (event_race_fields event) ''EventCenterUnit''"
    by (rule race, simp add: race_columns_def)+
  have cols: "set event_columns \<subseteq> fst ` set r"
    using d by (rule event_dict_columns)
  have absent: "find_path event [Descendant ''EventRace''] = None \<longrightarrow>
          map_of r ''EventRaceName'' = Some (Some [])
          \<and> map_of r ''EventRaceId'' = Some None
          \<and> map_of r ''RaceDate'' = Some None
          \<and> map_of r ''RaceClock'' = Some None
          \<and> map_of r ''EventCenterX'' = Some None
          \<and> map_of r ''EventCenterY'' = Some None
          \<and> map_of r ''EventCenterUnit'' = Some None"
    unfolding rk by (simp add: race_fields_absent)
  have present: "\<forall>race. find_path event [Descendant ''EventRace''] = Some race \<longrightarrow>
          map_of r ''EventRaceDistance'' = Some (get race ''raceDistance'')
          \<and> (find_path race [Child ''RaceDate''] = None \<longrightarrow>
               map_of r ''RaceDate'' = Some None \<and> map_of r ''RaceClock'' = Some None)
          \<and> (find_path race [Descendant ''EventCenterPosition''] = None \<longrightarrow>
               map_of r ''EventCenterX'' = Some None
               \<and> map_of r ''EventCenterY'' = Some None
               \<and> map_of r ''EventCenterUnit'' = Some None)"
    unfolding rk using race_fields_present [of event] by (intro allI impI)
  show ?thesis
    using len cols absent present by (intro conjI)
qed

theorem event_record_columns_witness:
  "events_to_dataframe (Some race_scenario) = Inr [race_scenario_row]
   \<and> find_path (findall race_scenario [Descendant ''Event''] ! 0) [Descendant ''EventRace'']
       = Some (Element ''EventRace'' [(''raceDistance'', ''5000'')] None
                 [Element ''EventRaceId'' [] (Some ''11'') []])
   \<and> length [race_scenario_row] = length (findall race_scenario [Descendant ''Event''])
   \<and> set event_columns \<subseteq> fst ` set race_scenario_row
   \<and> map_of race_scenario_row ''EventRaceDistance'' = Some (Some ''5000'')
   \<and> map_of race_scenario_row ''EventCenterX'' = Some None"
proof -
  have f: "find_path (findall race_scenario [Descendant ''Event''] ! 0) [Descendant ''EventRace'']
       = Some (Element ''EventRace'' [(''raceDistance'', ''5000'')] None
                 [Element ''EventRaceId'' [] (Some ''11'') []])"
    unfolding race_scenario_events by (simp add: et_eval)
  have c: "find_path (Element ''EventRace'' [(''raceDistance'', ''5000'')] None
                 [Element ''EventRaceId'' [] (Some ''11'') []])
             [Descendant ''EventCenterPosition''] = None"
    by (simp add: et_eval)
  have g: "get (Element ''EventRace'' [(''raceDistance'', ''5000'')] None
                 [Element ''EventRaceId'' [] (Some ''11'') []]) ''raceDistance'' = Some ''5000''"
    by (simp add: get_def)
  from event_record_columns [OF race_scenario_eval, of 0 _ race_scenario_row, OF _ refl]
  have "length [race_scenario_row] = length (findall race_scenario [Descendant ''Event''])
     \<and> set event_columns \<subseteq> fst ` set race_scenario_row
     \<and> map_of race_scenario_row ''EventRaceDistance'' = Some (Some ''5000'')
     \<and> map_of race_scenario_row ''EventCenterX'' = Some None"
    using f c g by simp
  with race_scenario_eval f show ?thesis by simp
qed

text \<open>
  The claim as written fails on an event without a race node: the race name, a field
  of the absent group, is the empty string and not null.
\<close>

theorem absent_race_name_counterexample:
  "events_to_dataframe (Some no_race_scenario) = Inr [no_race_row]
   \<and> find_path (findall no_race_scenario [Descendant ''Event''] ! 0)
        [Descendant ''EventRace''] = None
   \<and> map_of no_race_row ''EventRaceName'' = Some (Some [])
   \<and> map_of no_race_row ''EventRaceName'' \<noteq> Some None"
  by (simp add: no_race_eval, simp add: no_race_scenario_def no_race_row_def et_eval)

section \<open>The request\<close>

text \<open>
  C4, as the code has it. \<^verbatim>\<open>_make_request\<close> issues one GET request. When
  \<^verbatim>\<open>requests.get\<close> raises, or the status is a client or server error (400 to 599, the
  codes for which \<^verbatim>\<open>raise_for_status\<close> raises), the exception is logged and reaches the
  caller, and no second request is made. When the body of any other response does not
  parse, the parse error is logged with the body, and the call returns the "no data"
  sentinel: the parse exception does not reach the caller.
\<close>

theorem make_request_failures:
  "(requests_get tr (BASE_URL @ ''/'' @ endpoint) (headers self) ps = Inl e \<longrightarrow>
      make_request tr self endpoint ps w
        = (Inl (RequestException e), log_line (sent_once w endpoint ps) (ApiRequestFailed e)))
   \<and> (requests_get tr (BASE_URL @ ''/'' @ endpoint) (headers self) ps = Inr resp
        \<and> 400 \<le> status_code resp \<and> status_code resp < 600 \<longrightarrow>
      make_request tr self endpoint ps w
        = (Inl (RequestException (HTTPError (status_code resp))),
           log_line (sent_once w endpoint ps) (ApiRequestFailed (HTTPError (status_code resp)))))
   \<and> (requests_get tr (BASE_URL @ ''/'' @ endpoint) (headers self) ps = Inr resp
        \<and> \<not> (400 \<le> status_code resp \<and> status_code resp < 600)
        \<and> fromstring tr (resp_text resp) = Inl msg \<longrightarrow>
      make_request tr self endpoint ps w
        = (Inr None,
           log_line (sent_once w endpoint ps) (XMLParseError msg (resp_text resp))))"
  by (simp add: make_request_def raise_for_status_def sent_once_def log_line_def Let_def)

theorem make_request_failures_witness:
  "make_request refused_transport demo_api ''events'' None world0
     = (Inl (RequestException (ConnectionError ''connection refused'')),
        \<lparr>requests_sent = [(BASE_URL @ ''/events'', None)],
         logged = [ApiRequestFailed (ConnectionError ''connection refused'')]\<rparr>)
   \<and> make_request not_found_transport demo_api ''events'' None world0
     = (Inl (RequestException (HTTPError 404)),
        \<lparr>requests_sent = [(BASE_URL @ ''/events'', None)],
         logged = [ApiRequestFailed (HTTPError 404)]\<rparr>)
   \<and> make_request malformed_transport demo_api ''events'' None world0
     = (Inr None,
        \<lparr>requests_sent = [(BASE_URL @ ''/events'', None)],
         logged = [XMLParseError ''no element found: line 1, column 11'' ''<EventList>'']\<rparr>)"
proof -
  have a: "requests_get refused_transport (BASE_URL @ ''/'' @ ''events'') (headers demo_api) None
             = Inl (ConnectionError ''connection refused'')"
    by (simp add: refused_transport_def fixed_transport_def)
  have b: "requests_get not_found_transport (BASE_URL @ ''/'' @ ''events'') (headers demo_api) None
             = Inr \<lparr>status_code = 404, resp_text = ''Not Found''\<rparr>"
    by (simp add: not_found_transport_def fixed_transport_def)
  have c: "requests_get malformed_transport (BASE_URL @ ''/'' @ ''events'') (headers demo_api) None
             = Inr \<lparr>status_code = 200, resp_text = ''<EventList>''\<rparr>"
    "fromstring malformed_transport ''<EventList>'' = Inl ''no element found: line 1, column 11''"
    by (simp_all add: malformed_transport_def fixed_transport_def)
  from make_request_failures [of refused_transport "''events''" demo_api None
      "ConnectionError ''connection refused''" world0]
    make_request_failures [of not_found_transport "''events''" demo_api None _ world0
      "\<lparr>status_code = 404, resp_text = ''Not Found''\<rparr>"]
    make_request_failures [of malformed_transport "''events''" demo_api None _ world0
      "\<lparr>status_code = 200, resp_text = ''<EventList>''\<rparr>"
      "''no element found: line 1, column 11''"]
  show ?thesis
    using a b c by (simp add: sent_once_def log_line_def world0_def)
qed

text \<open>
  The claim as written, with every status outside 200 to 299 a transport failure, fails
  on a 304 response: nothing is raised, and the body is parsed and returned.
\<close>

theorem not_modified_counterexample:
  "requests_get not_modified_transport (BASE_URL @ ''/events'') (headers demo_api) None
     = Inr \<lparr>status_code = 304, resp_text = ''<EventList/>''\<rparr>
   \<and> (304 :: nat) \<notin> {200 ..< 300}
   \<and> make_request not_modified_transport demo_api ''events'' None world0
     = (Inr (Some (Element ''EventList'' [] None [])),
        \<lparr>requests_sent = [(BASE_URL @ ''/events'', None)], logged = []\<rparr>)"
  by (simp add: make_request_def raise_for_status_def not_modified_transport_def
      fixed_transport_def world0_def Let_def)

section \<open>Memberships\<close>

lemma find_path_single: "findall e p = [n] \<Longrightarrow> find_path e p = Some n"
  by (simp add: find_path_def)

lemma memberships_rows:
  "find_path root [Descendant ''Organisation''] = Some org \<Longrightarrow>
   memberships_to_dataframe (Some root) =
     Inr (map (membership_dict (findtext org [Child ''Id'']) (findtext org [Child ''Name''])
                (findtext org [Child ''ShortName'']))
            (findall root [Descendant ''Membership'']))"
  by (simp add: memberships_to_dataframe_def)

lemma membership_dict_org:
  "map_of (membership_dict a b c m) ''OrganisationId'' = Some a
   \<and> map_of (membership_dict a b c m) ''OrganisationName'' = Some b
   \<and> map_of (membership_dict a b c m) ''OrganisationShortName'' = Some c"
  by (simp add: membership_dict_def)

text \<open>
  C6. A tree with one organisation node, \<^verbatim>\<open>Id\<close> 7 and \<^verbatim>\<open>Name\<close> Acme, and two
  membership nodes gives exactly two records from the memberships extractor, both with
  \<^verbatim>\<open>OrganisationId\<close> "7" and \<^verbatim>\<open>OrganisationName\<close> "Acme".
\<close>

theorem memberships_repeat_organisation:
  assumes "findall root [Descendant ''Organisation''] = [org]"
    and "findtext org [Child ''Id''] = Some ''7''"
    and "findtext org [Child ''Name''] = Some ''Acme''"
    and "length (findall root [Descendant ''Membership'']) = 2"
  shows "\<exists>r1 r2. memberships_to_dataframe (Some root) = Inr [r1, r2]
           \<and> map_of r1 ''OrganisationId'' = Some (Some ''7'')
           \<and> map_of r1 ''OrganisationName'' = Some (Some ''Acme'')
           \<and> map_of r2 ''OrganisationId'' = Some (Some ''7'')
           \<and> map_of r2 ''OrganisationName'' = Some (Some ''Acme'')"
proof -
  from assms(4) obtain m1 m2 where ms: "findall root [Descendant ''Membership''] = [m1, m2]"
    by (auto simp: length_Suc_conv numeral_2_eq_2)
  show ?thesis
    unfolding memberships_rows [OF find_path_single [OF assms(1)]] ms assms(2) assms(3)
    by (simp add: membership_dict_org)
qed

lemma acme_organisation:
  "findall acme_scenario [Descendant ''Organisation''] =
     [Element ''Organisation'' [] None
          [Element ''Id'' [] (Some ''7'') [], Element ''Name'' [] (Some ''Acme'') []]]"
  by (simp add: acme_scenario_def et_eval)

lemma acme_memberships:
  "findall acme_scenario [Descendant ''Membership''] =
     [Element ''Membership'' [] None
          [Element ''Id'' [] (Some ''100'') [], Element ''Year'' [] (Some ''2024'') []],
        Element ''Membership'' [] None
          [Element ''Id'' [] (Some ''101'') [], Element ''Year'' [] (Some ''2024'') []]]"
  by (simp add: acme_scenario_def et_eval)

theorem memberships_repeat_organisation_witness:
  "length (findall acme_scenario [Descendant ''Organisation'']) = 1
   \<and> findtext (hd (findall acme_scenario [Descendant ''Organisation''])) [Child ''Id'']
        = Some ''7''
   \<and> findtext (hd (findall acme_scenario [Descendant ''Organisation''])) [Child ''Name'']
        = Some ''Acme''
   \<and> length (findall acme_scenario [Descendant ''Membership'']) = 2
   \<and> (\<exists>r1 r2. memberships_to_dataframe (Some acme_scenario) = Inr [r1, r2]
           \<and> map_of r1 ''OrganisationId'' = Some (Some ''7'')
           \<and> map_of r1 ''OrganisationName'' = Some (Some ''Acme'')
           \<and> map_of r2 ''OrganisationId'' = Some (Some ''7'')
           \<and> map_of r2 ''OrganisationName'' = Some (Some ''Acme''))"
proof -
  have i: "findtext (Element ''Organisation'' [] None
          [Element ''Id'' [] (Some ''7'') [], Element ''Name'' [] (Some ''Acme'') []])
          [Child ''Id''] = Some ''7''"
    by (simp add: et_eval)
  have n: "findtext (Element ''Organisation'' [] None
          [Element ''Id'' [] (Some ''7'') [], Element ''Name'' [] (Some ''Acme'') []])
          [Child ''Name''] = Some ''Acme''"
    by (simp add: et_eval)
  have l: "length (findall acme_scenario [Descendant ''Membership'']) = 2"
    unfolding acme_memberships by simp
  from memberships_repeat_organisation [OF acme_organisation i n l]
  show ?thesis unfolding acme_organisation using i n l by simp
qed

section \<open>Disciplines\<close>

lemma add_discipline_pair:
  "add_discipline ds d =
     add_pair ds (findtext d [Child ''DisciplineId''], findtext d [Child ''Name''])"
  by (simp add: add_discipline_def add_pair_def Let_def)

lemma foldl_add_discipline_list:
  "foldl add_discipline ds xs
     = foldl add_pair ds
         (map (\<lambda>d. (findtext d [Child ''DisciplineId''], findtext d [Child ''Name''])) xs)"
  by (induction xs arbitrary: ds) (simp_all add: add_discipline_pair)

lemma foldl_add_discipline:
  "foldl add_discipline ds (findall event [Descendant ''Discipline''])
     = foldl add_pair ds (disciplines_of_event event)"
  unfolding disciplines_of_event_def by (rule foldl_add_discipline_list)

lemma foldl_events:
  "foldl (\<lambda>ds event. foldl add_pair ds (disciplines_of_event event)) ds evs
     = foldl add_pair ds (concat (map disciplines_of_event evs))"
  by (induction evs arbitrary: ds) simp_all

lemma unique_disciplines_pairs:
  "unique_disciplines root =
     foldl add_pair []
       (concat (map disciplines_of_event (findall root [Descendant ''Event''])))"
  unfolding unique_disciplines_def foldl_add_discipline by (rule foldl_events)

lemma extract_disciplines_ok:
  assumes "requests_get tr (BASE_URL @ ''/events'') (headers self)
             (Some (get_events_params from_date to_date None)) = Inr resp"
    and "\<not> (400 \<le> status_code resp \<and> status_code resp < 600)"
    and "fromstring tr (resp_text resp) = Inr root"
  shows "fst (extract_disciplines_from_events tr self from_date to_date w)
           = Inr (map discipline_row (unique_disciplines root))"
  using assms
  by (simp add: extract_disciplines_from_events_def get_events_def make_request_def
      raise_for_status_def Let_def)


lemma add_pair_proper:
  "i \<noteq> [] \<Longrightarrow> n \<noteq> [] \<Longrightarrow> add_pair ds (Some i, Some n) = set_add (i, n) ds"
  by (simp add: add_pair_def truthy_def)

text \<open>
  C7. On a response in which two events carry one and the same (id, name) pair and a
  third event carries another pair, the discipline helper returns a table of exactly
  two rows, one for each pair.
\<close>

theorem disciplines_deduplicated:
  assumes "requests_get tr (BASE_URL @ ''/events'') (headers self)
             (Some (get_events_params from_date to_date None)) = Inr resp"
    and "\<not> (400 \<le> status_code resp \<and> status_code resp < 600)"
    and "fromstring tr (resp_text resp) = Inr root"
    and "map disciplines_of_event (findall root [Descendant ''Event''])
           \<in> {[[(Some i, Some n)], [(Some i, Some n)], [(Some j, Some m)]],
               [[(Some i, Some n)], [(Some j, Some m)], [(Some i, Some n)]],
               [[(Some j, Some m)], [(Some i, Some n)], [(Some i, Some n)]]}"
    and "i \<noteq> []" and "n \<noteq> []" and "j \<noteq> []" and "m \<noteq> []"
    and "(i, n) \<noteq> (j, m)"
  shows "\<exists>rows. fst (extract_disciplines_from_events tr self from_date to_date w) = Inr rows
           \<and> length rows = 2
           \<and> set rows = {discipline_row (i, n), discipline_row (j, m)}"
proof -
  have u: "unique_disciplines root = [(i, n), (j, m)] \<or> unique_disciplines root = [(j, m), (i, n)]"
    using assms(4-9)
    unfolding unique_disciplines_pairs
    by (auto simp: add_pair_proper set_add_def)
  then show ?thesis
    unfolding extract_disciplines_ok [OF assms(1-3)] by auto
qed

lemma disciplines_scenario_events:
  "map disciplines_of_event (findall disciplines_scenario [Descendant ''Event''])
     = [[(Some ''1'', Some ''Foot'')], [(Some ''2'', Some ''Ski'')], [(Some ''1'', Some ''Foot'')]]"
  by (simp add: disciplines_scenario_def discipline_def disciplines_of_event_def et_eval)

theorem disciplines_deduplicated_witness:
  "map disciplines_of_event (findall disciplines_scenario [Descendant ''Event''])
     = [[(Some ''1'', Some ''Foot'')], [(Some ''2'', Some ''Ski'')], [(Some ''1'', Some ''Foot'')]]
   \<and> (\<exists>rows. fst (extract_disciplines_from_events disciplines_transport demo_api None None
                     world0) = Inr rows
           \<and> length rows = 2
           \<and> set rows = {discipline_row (''1'', ''Foot''), discipline_row (''2'', ''Ski'')})"
proof -
  have g: "requests_get disciplines_transport (BASE_URL @ ''/events'') (headers demo_api)
             (Some (get_events_params None None None))
           = Inr \<lparr>status_code = 200, resp_text = ''<EventList>...</EventList>''\<rparr>"
    by (simp add: disciplines_transport_def fixed_transport_def)
  have s: "\<not> (400 \<le> status_code \<lparr>status_code = 200, resp_text = ''<EventList>...</EventList>''\<rparr>
              \<and> status_code \<lparr>status_code = 200, resp_text = ''<EventList>...</EventList>''\<rparr> < 600)"
    by simp
  have p: "fromstring disciplines_transport
             (resp_text \<lparr>status_code = 200, resp_text = ''<EventList>...</EventList>''\<rparr>)
           = Inr disciplines_scenario"
    by (simp add: disciplines_transport_def fixed_transport_def)
  have e: "map disciplines_of_event (findall disciplines_scenario [Descendant ''Event''])
           \<in> {[[(Some ''1'', Some ''Foot'')], [(Some ''1'', Some ''Foot'')], [(Some ''2'', Some ''Ski'')]],
               [[(Some ''1'', Some ''Foot'')], [(Some ''2'', Some ''Ski'')], [(Some ''1'', Some ''Foot'')]],
               [[(Some ''2'', Some ''Ski'')], [(Some ''1'', Some ''Foot'')], [(Some ''1'', Some ''Foot'')]]}"
    unfolding disciplines_scenario_events by simp
  from disciplines_deduplicated [OF g s p e, of world0]
  show ?thesis unfolding disciplines_scenario_events by simp
qed

section \<open>Null fields and absent sources\<close>
























lemma event_race_name_never_null:
  "map_of (event_race_fields event) ''EventRaceName'' \<noteq> None
   \<and> map_of (event_race_fields event) ''EventRaceName'' \<noteq> Some None"
  by (simp add: event_race_fields_def or_empty_def split: option.splits)












lemma membership_dict_keys: "map fst (membership_dict a b c n) = map fst (organisation_schema @ membership_schema)"
  by (simp add: membership_dict_def membership_schema_def organisation_schema_def)




text \<open>
  Two trees on which an extractor raises for a missing optional node: the guard of
  line 74 tests another path than the one read, and lines 371 to 374 do not test at
  all.
\<close>

lemma organiser_without_id_raises:
  "events_to_dataframe (Some organiser_without_id) = Inl AttributeError"
  by (simp add: organiser_without_id_def extract_eval)

lemma memberships_without_organisation_raises:
  "memberships_to_dataframe (Some memberships_without_organisation) = Inl AttributeError"
  by (simp add: memberships_without_organisation_def memberships_to_dataframe_def et_eval)



end
